theory Spec2Isabelle
  imports Main "HOL-Library.Word"
begin

section \<open>Record types of util.go (current revision)\<close>

text \<open>
  Go's \<^verbatim>\<open>float64\<close> is carried as its IEEE-754 bit pattern and \<^verbatim>\<open>int32\<close>,
  \<^verbatim>\<open>int64\<close> as machine words; the zero value of each is the word \<open>0\<close>.
  A Go slice is a list (a \<^verbatim>\<open>nil\<close> slice and an empty one both have length 0 and
  are both \<open>[]\<close>).
\<close>

type_synonym float64 = "64 word"
type_synonym int32 = "32 word"

record ContestData =
  ContestName :: string
  ContestDate :: string
  Rank :: float64
  Rating :: float64
  Solved :: int32
  ContestID :: string

record SubmissionData =
  ProblemUrl :: string
  ProblemName :: string
  SubmissionDate :: string
  SubmissionLanguage :: string
  SubmissionStatus :: string
  CodeUrl :: string

text \<open>
  The two revisions of the file differ in \<^verbatim>\<open>ContestData\<close> only (and in the
  numeric type of \<^verbatim>\<open>Ranking\<close>, a 64-bit value in both), so the containers are
  parameterised by the contest record \<open>'c\<close>.
\<close>

record 'c PlatformDataModel =
  Handle :: string
  TotalSolved :: int32
  Ranking :: "64 word"
  Contests :: "'c list"
  Submissions :: "SubmissionData list"

record 'c Platforms =
  Leetcode :: "'c PlatformDataModel"
  Codeforces :: "'c PlatformDataModel"
  Codechef :: "'c PlatformDataModel"
  Cpoj :: "'c PlatformDataModel"
  Hackerearth :: "'c PlatformDataModel"
  Atcoder :: "'c PlatformDataModel"

record 'c UserSchema =
  Email :: string
  FirstName :: string
  LastName :: string
  Password :: string
  PlatformData :: "'c Platforms"
  RefreshToken :: string

text \<open>Zero values: what \<^verbatim>\<open>ContestData{}\<close>, \<^verbatim>\<open>SubmissionData{}\<close> and
  \<^verbatim>\<open>var userObject UserSchema\<close> denote.\<close>

definition zero_ContestData :: ContestData where
  "zero_ContestData =
     \<lparr>ContestName = [], ContestDate = [], Rank = 0, Rating = 0, Solved = 0, ContestID = []\<rparr>"

definition zero_SubmissionData :: SubmissionData where
  "zero_SubmissionData =
     \<lparr>ProblemUrl = [], ProblemName = [], SubmissionDate = [], SubmissionLanguage = [],
      SubmissionStatus = [], CodeUrl = []\<rparr>"

definition zero_PlatformDataModel :: "'c PlatformDataModel" where
  "zero_PlatformDataModel =
     \<lparr>Handle = [], TotalSolved = 0, Ranking = 0, Contests = [], Submissions = []\<rparr>"

definition zero_Platforms :: "'c Platforms" where
  "zero_Platforms =
     \<lparr>Leetcode = zero_PlatformDataModel, Codeforces = zero_PlatformDataModel,
      Codechef = zero_PlatformDataModel, Cpoj = zero_PlatformDataModel,
      Hackerearth = zero_PlatformDataModel, Atcoder = zero_PlatformDataModel\<rparr>"

definition zero_UserSchema :: "'c UserSchema" where
  "zero_UserSchema =
     \<lparr>Email = [], FirstName = [], LastName = [], Password = [],
      PlatformData = zero_Platforms, RefreshToken = []\<rparr>"

section \<open>How a call ends\<close>

text \<open>
  A call of one of the library's functions either returns a value, or panics (a run-time
  panic of the Go runtime or of package reflect), or ends the whole process:
  \<^verbatim>\<open>log.Fatalf\<close> prints and calls \<^verbatim>\<open>os.Exit(1)\<close>, so nothing is returned to the
  caller and no deferred function runs.
\<close>

datatype 'a outcome = Return 'a | Panic | Fatal

text \<open>The value of Go's \<^verbatim>\<open>error\<close> interface: \<open>None\<close> is \<^verbatim>\<open>nil\<close>.\<close>

datatype store_error = ErrNoDocuments | ErrUnavailable

type_synonym error = "store_error option"

section \<open>strings.ToLower\<close>

text \<open>
  The strings of this model are byte strings. \<^verbatim>\<open>strings.ToLower\<close> is modelled on
  ASCII, its fast path: the bytes \<open>A\<close> to \<open>Z\<close> move to \<open>a\<close> to \<open>z\<close>, every other
  byte stays. (Beyond ASCII the Go function works on Unicode code points; such names
  are outside this model.)
\<close>

definition lower :: "char \<Rightarrow> char" where
  "lower c = (let n = (of_char c :: nat)
              in if 65 \<le> n \<and> n \<le> 90 then char_of (n + 32) else c)"

definition ToLower :: "string \<Rightarrow> string" where
  "ToLower s = map lower s"

section \<open>getPlatformDataDynamically\<close>

text \<open>
  \<^verbatim>\<open>reflect.Value.FieldByName\<close> finds the struct field whose name is exactly the
  given string; for any other string it gives the zero \<^verbatim>\<open>Value\<close>, on which
  \<^verbatim>\<open>Interface()\<close> panics.
\<close>

definition getPlatformDataDynamically ::
  "'c Platforms \<Rightarrow> string \<Rightarrow> 'c PlatformDataModel outcome" where
  "getPlatformDataDynamically platformData platform =
     (if platform = ''Leetcode'' then Return (Leetcode platformData)
      else if platform = ''Codeforces'' then Return (Codeforces platformData)
      else if platform = ''Codechef'' then Return (Codechef platformData)
      else if platform = ''Cpoj'' then Return (Cpoj platformData)
      else if platform = ''Hackerearth'' then Return (Hackerearth platformData)
      else if platform = ''Atcoder'' then Return (Atcoder platformData)
      else Panic)"

section \<open>The persisted documents\<close>

text \<open>
  The collection \<^verbatim>\<open>users\<close> holds one document per email. The library addresses
  a document only through the paths \<^verbatim>\<open>platformData.<name>.contests\<close> and
  \<^verbatim>\<open>platformData.<name>.submissions\<close>, where \<^verbatim>\<open><name>\<close> comes from
  the caller, so the model keeps \<^verbatim>\<open>platformData\<close> as the document it is: a list of
  (key, sub-document) pairs in document order, and a sub-document is the five fields
  the struct codec writes, each present or absent. Array elements are the contest and
  submission records as the struct codec encodes them. Field names are case-sensitive
  in the store. Names that contain \<open>.\<close> or start with \<open>$\<close>, to which the store's
  path syntax gives a meaning of its own, and the empty name are taken as plain keys
  here.

  The documents of the model are well typed, so the two \<^verbatim>\<open>log.Fatalf\<close> branches
  behind \<^verbatim>\<open>bson.Marshal\<close> and \<^verbatim>\<open>bson.Unmarshal\<close> are never taken in it. The
  contexts the calls pass (\<^verbatim>\<open>dbResources.ctx\<close>, \<^verbatim>\<open>context.TODO()\<close>) carry
  deadlines and no data; time is not modelled, and a store that does not answer is the
  flag \<open>available\<close> of the collection. The slice an append is given is a list, which
  the driver encodes as an array.
\<close>

record 'c PlatformDoc =
  handle :: "string option"
  totalsolved :: "int32 option"
  ranking :: "64 word option"
  contests :: "'c list option"
  submissions :: "SubmissionData list option"

record 'c UserDoc =
  firstName :: string
  lastName :: string
  password :: string
  platformDataDoc :: "(string \<times> 'c PlatformDoc) list"
  refreshToken :: string

text \<open>The collection: whether the store answers, and the document of each email.\<close>

record 'c Collection =
  available :: bool
  documents :: "string \<rightharpoonup> 'c UserDoc"

record 'c DBResources =
  selectedCollection :: "'c Collection"

definition empty_PlatformDoc :: "'c PlatformDoc" where
  "empty_PlatformDoc =
     \<lparr>handle = None, totalsolved = None, ranking = None, contests = None, submissions = None\<rparr>"

subsection \<open>Decoding a document into the structs\<close>

text \<open>
  \<^verbatim>\<open>bson.Unmarshal\<close> into a struct without tags: the key of a field is its name in
  lower case, and a document key that is no field key is tried again in lower case.
  Decoding writes the fields the document has and leaves the others as they are.
\<close>

definition decodePlatformDataModel ::
  "'c PlatformDoc \<Rightarrow> 'c PlatformDataModel \<Rightarrow> 'c PlatformDataModel" where
  "decodePlatformDataModel d v =
     \<lparr>Handle = (case handle d of Some x \<Rightarrow> x | None \<Rightarrow> Handle v),
      TotalSolved = (case totalsolved d of Some x \<Rightarrow> x | None \<Rightarrow> TotalSolved v),
      Ranking = (case ranking d of Some x \<Rightarrow> x | None \<Rightarrow> Ranking v),
      Contests = (case contests d of Some x \<Rightarrow> x | None \<Rightarrow> Contests v),
      Submissions = (case submissions d of Some x \<Rightarrow> x | None \<Rightarrow> Submissions v)\<rparr>"

definition decodeField :: "string \<Rightarrow> 'c PlatformDoc \<Rightarrow> 'c Platforms \<Rightarrow> 'c Platforms" where
  "decodeField k d p =
     (let n = ToLower k in
      if n = ''leetcode'' then p\<lparr>Leetcode := decodePlatformDataModel d (Leetcode p)\<rparr>
      else if n = ''codeforces'' then p\<lparr>Codeforces := decodePlatformDataModel d (Codeforces p)\<rparr>
      else if n = ''codechef'' then p\<lparr>Codechef := decodePlatformDataModel d (Codechef p)\<rparr>
      else if n = ''cpoj'' then p\<lparr>Cpoj := decodePlatformDataModel d (Cpoj p)\<rparr>
      else if n = ''hackerearth'' then p\<lparr>Hackerearth := decodePlatformDataModel d (Hackerearth p)\<rparr>
      else if n = ''atcoder'' then p\<lparr>Atcoder := decodePlatformDataModel d (Atcoder p)\<rparr>
      else p)"

fun decodePlatforms :: "(string \<times> 'c PlatformDoc) list \<Rightarrow> 'c Platforms \<Rightarrow> 'c Platforms" where
  "decodePlatforms [] p = p"
| "decodePlatforms ((k, d) # kvs) p = decodePlatforms kvs (decodeField k d p)"

text \<open>A found document as the functions see it after \<^verbatim>\<open>bson.Marshal\<close> and
  \<^verbatim>\<open>bson.Unmarshal\<close> into \<^verbatim>\<open>var userObject UserSchema\<close>. The first argument
  is the \<^verbatim>\<open>email\<close> field when the find returned it.\<close>

definition Unmarshal :: "string \<Rightarrow> 'c UserDoc \<Rightarrow> 'c UserSchema" where
  "Unmarshal e doc =
     \<lparr>Email = e, FirstName = firstName doc, LastName = lastName doc, Password = password doc,
      PlatformData = decodePlatforms (platformDataDoc doc) zero_Platforms,
      RefreshToken = refreshToken doc\<rparr>"

subsection \<open>The three primitives of the store\<close>

datatype log_field = contests_field | submissions_field

text \<open>The inclusion projection \<^verbatim>\<open>{"platformData.<key>.<field>": 1}\<close>: of the
  document it keeps the sub-document under exactly that key, cut down to that field
  (and the \<^verbatim>\<open>_id\<close>, which no struct field reads).\<close>

definition projectField :: "log_field \<Rightarrow> 'c PlatformDoc \<Rightarrow> 'c PlatformDoc" where
  "projectField f d =
     (case f of
        contests_field \<Rightarrow> empty_PlatformDoc\<lparr>contests := contests d\<rparr>
      | submissions_field \<Rightarrow> empty_PlatformDoc\<lparr>submissions := submissions d\<rparr>)"

definition projection :: "string \<Rightarrow> log_field \<Rightarrow> 'c UserDoc \<Rightarrow> 'c UserDoc" where
  "projection key f doc =
     \<lparr>firstName = [], lastName = [], password = [],
      platformDataDoc = map (\<lambda>(k, d). (k, projectField f d))
                         (filter (\<lambda>(k, d). k = key) (platformDataDoc doc)),
      refreshToken = []\<rparr>"

text \<open>\<^verbatim>\<open>FindOne(ctx, {"email": email}, opts).Decode\<close>: an error when the store does
  not answer and \<^verbatim>\<open>ErrNoDocuments\<close> when no document matches.\<close>

definition FindOne ::
  "'c Collection \<Rightarrow> string \<Rightarrow> ('c UserDoc \<Rightarrow> 'c UserDoc) \<Rightarrow> store_error + 'c UserDoc" where
  "FindOne coll email proj =
     (if \<not> available coll then Inl ErrUnavailable
      else case documents coll email of
             None \<Rightarrow> Inl ErrNoDocuments
           | Some doc \<Rightarrow> Inr (proj doc))"

text \<open>The update \<^verbatim>\<open>{"$push": {"platformData.<key>.contests": {"$each": new}}}\<close>
  on one document: the array under the path gets the new elements at its end, in their
  order; a path that does not exist yet is created (the array, and the sub-document when
  the key is new, at the end of \<^verbatim>\<open>platformData\<close>).\<close>

fun pushContests ::
  "string \<Rightarrow> 'c list \<Rightarrow> (string \<times> 'c PlatformDoc) list \<Rightarrow> (string \<times> 'c PlatformDoc) list" where
  "pushContests key new [] = [(key, empty_PlatformDoc\<lparr>contests := Some new\<rparr>)]"
| "pushContests key new ((k, d) # kvs) =
     (if k = key
      then (k, d\<lparr>contests := Some ((case contests d of None \<Rightarrow> [] | Some old \<Rightarrow> old) @ new)\<rparr>) # kvs
      else (k, d) # pushContests key new kvs)"

fun pushSubmissions ::
  "string \<Rightarrow> SubmissionData list \<Rightarrow> (string \<times> 'c PlatformDoc) list
     \<Rightarrow> (string \<times> 'c PlatformDoc) list" where
  "pushSubmissions key new [] = [(key, empty_PlatformDoc\<lparr>submissions := Some new\<rparr>)]"
| "pushSubmissions key new ((k, d) # kvs) =
     (if k = key
      then (k, d\<lparr>submissions :=
                    Some ((case submissions d of None \<Rightarrow> [] | Some old \<Rightarrow> old) @ new)\<rparr>) # kvs
      else (k, d) # pushSubmissions key new kvs)"

text \<open>\<^verbatim>\<open>UpdateOne(ctx, {"email": email}, update)\<close>: an error when the store does not
  answer; when no document matches the filter nothing is written and the error is
  \<^verbatim>\<open>nil\<close> (the driver reports the number of matched documents in its result, which
  the callers drop).\<close>

definition UpdateOne ::
  "'c Collection \<Rightarrow> string \<Rightarrow> ((string \<times> 'c PlatformDoc) list \<Rightarrow> (string \<times> 'c PlatformDoc) list)
     \<Rightarrow> error \<times> 'c Collection" where
  "UpdateOne coll email upd =
     (if \<not> available coll then (Some ErrUnavailable, coll)
      else case documents coll email of
             None \<Rightarrow> (None, coll)
           | Some doc \<Rightarrow>
               (None, coll\<lparr>documents :=
                              (documents coll)(email \<mapsto> doc\<lparr>platformDataDoc := upd (platformDataDoc doc)\<rparr>)\<rparr>))"

section \<open>The operations of the current revision\<close>

definition GetLastContest :: "string \<Rightarrow> string \<Rightarrow> ContestData DBResources \<Rightarrow> ContestData outcome" where
  "GetLastContest email platform dbResources =
     (case FindOne (selectedCollection dbResources) email
             (projection (ToLower platform) contests_field) of
        Inl err \<Rightarrow> Fatal
      | Inr documentResult \<Rightarrow>
          (let userObject = Unmarshal [] documentResult in
           case getPlatformDataDynamically (PlatformData userObject) platform of
             Panic \<Rightarrow> Panic
           | Fatal \<Rightarrow> Fatal
           | Return platformData \<Rightarrow>
               if length (Contests platformData) = 0 then Return zero_ContestData
               else Return (Contests platformData ! (length (Contests platformData) - 1))))"

definition GetLastSubmission ::
  "string \<Rightarrow> string \<Rightarrow> ContestData DBResources \<Rightarrow> SubmissionData outcome" where
  "GetLastSubmission email platform dbResources =
     (case FindOne (selectedCollection dbResources) email
             (projection (ToLower platform) submissions_field) of
        Inl err \<Rightarrow> Fatal
      | Inr documentResult \<Rightarrow>
          (let userObject = Unmarshal [] documentResult in
           case getPlatformDataDynamically (PlatformData userObject) platform of
             Panic \<Rightarrow> Panic
           | Fatal \<Rightarrow> Fatal
           | Return platformData \<Rightarrow>
               if length (Submissions platformData) = 0 then Return zero_SubmissionData
               else Return (Submissions platformData ! (length (Submissions platformData) - 1))))"

definition FindContestsandSubmissionsFromDB ::
  "ContestData DBResources \<Rightarrow> string \<Rightarrow> string
     \<Rightarrow> (ContestData list \<times> SubmissionData list) outcome" where
  "FindContestsandSubmissionsFromDB dbResources email platform =
     (case FindOne (selectedCollection dbResources) email (\<lambda>doc. doc) of
        Inl err \<Rightarrow> Fatal
      | Inr result \<Rightarrow>
          (let userObject = Unmarshal email result in
           case getPlatformDataDynamically (PlatformData userObject) platform of
             Panic \<Rightarrow> Panic
           | Fatal \<Rightarrow> Fatal
           | Return platformData \<Rightarrow> Return (Contests platformData, Submissions platformData)))"

text \<open>The appends give back what the call does and the collection after it. The
  \<^verbatim>\<open>return err\<close> behind \<^verbatim>\<open>log.Fatalf\<close> is never reached.\<close>

definition AppendContestData ::
  "ContestData DBResources \<Rightarrow> string \<Rightarrow> string \<Rightarrow> ContestData list
     \<Rightarrow> error outcome \<times> ContestData DBResources" where
  "AppendContestData dbResources email platform newContestData =
     (case UpdateOne (selectedCollection dbResources) email
             (pushContests (ToLower platform) newContestData) of
        (Some err, coll) \<Rightarrow> (Fatal, dbResources\<lparr>selectedCollection := coll\<rparr>)
      | (None, coll) \<Rightarrow> (Return None, dbResources\<lparr>selectedCollection := coll\<rparr>))"

definition AppendSubmissionData ::
  "ContestData DBResources \<Rightarrow> string \<Rightarrow> string \<Rightarrow> SubmissionData list
     \<Rightarrow> error outcome \<times> ContestData DBResources" where
  "AppendSubmissionData dbResources email platform newSubmissionData =
     (case UpdateOne (selectedCollection dbResources) email
             (pushSubmissions (ToLower platform) newSubmissionData) of
        (Some err, coll) \<Rightarrow> (Fatal, dbResources\<lparr>selectedCollection := coll\<rparr>)
      | (None, coll) \<Rightarrow> (Return None, dbResources\<lparr>selectedCollection := coll\<rparr>))"

section \<open>Reading the model\<close>

text \<open>The struct field names, which are the platform names the resolver accepts.\<close>

definition platformNames :: "string set" where
  "platformNames =
     {''Leetcode'', ''Codeforces'', ''Codechef'', ''Cpoj'', ''Hackerearth'', ''Atcoder''}"

text \<open>The sub-document stored under a key, and the two logs in it (an absent array has
  no entries).\<close>

definition storedContests :: "'c UserDoc \<Rightarrow> string \<Rightarrow> 'c list" where
  "storedContests doc key =
     (case map_of (platformDataDoc doc) key of
        None \<Rightarrow> []
      | Some d \<Rightarrow> (case contests d of None \<Rightarrow> [] | Some xs \<Rightarrow> xs))"

definition storedSubmissions :: "'c UserDoc \<Rightarrow> string \<Rightarrow> SubmissionData list" where
  "storedSubmissions doc key =
     (case map_of (platformDataDoc doc) key of
        None \<Rightarrow> []
      | Some d \<Rightarrow> (case submissions d of None \<Rightarrow> [] | Some xs \<Rightarrow> xs))"

text \<open>A document as the data model has it: no key twice, and every key of
  \<^verbatim>\<open>platformData\<close> in lower case, as the struct codec and the appends of this
  revision write them.\<close>

definition wellFormed :: "'c UserDoc \<Rightarrow> bool" where
  "wellFormed doc =
     (distinct (map fst (platformDataDoc doc)) \<and>
      list_all (\<lambda>(k, d). ToLower k = k) (platformDataDoc doc))"

text \<open>The field the resolver selects for a name it accepts.\<close>

definition fieldOf :: "string \<Rightarrow> 'c Platforms \<Rightarrow> 'c PlatformDataModel" where
  "fieldOf platform p =
     (case getPlatformDataDynamically p platform of
        Return v \<Rightarrow> v
      | _ \<Rightarrow> zero_PlatformDataModel)"

text \<open>A small collection for the concrete instances: one user, whose Leetcode logs
  exist and are empty and whose Codeforces contest log has one entry.\<close>

definition weekly300 :: ContestData where
  "weekly300 =
     \<lparr>ContestName = ''Weekly 300'', ContestDate = ''2022-07-03'', Rank = 0x4097700000000000,
      Rating = 0x4099000000000000, Solved = 3, ContestID = ''300''\<rparr>"

definition exampleDoc :: "ContestData UserDoc" where
  "exampleDoc =
     \<lparr>firstName = ''Ada'', lastName = ''L'', password = ''x'',
      platformDataDoc =
        [(''leetcode'', empty_PlatformDoc\<lparr>contests := Some [], submissions := Some []\<rparr>),
         (''codeforces'', empty_PlatformDoc\<lparr>contests := Some [weekly300]\<rparr>)],
      refreshToken = []\<rparr>"

definition exampleDB :: "ContestData DBResources" where
  "exampleDB =
     \<lparr>selectedCollection = \<lparr>available = True, documents = [''a@x.com'' \<mapsto> exampleDoc]\<rparr>\<rparr>"


definition contestA :: ContestData where
  "contestA = weekly300\<lparr>ContestName := ''Weekly 301'', ContestID := ''301''\<rparr>"

definition contestB :: ContestData where
  "contestB = weekly300\<lparr>ContestName := ''Biweekly 82'', ContestID := ''82''\<rparr>"

definition contestC :: ContestData where
  "contestC = weekly300\<lparr>ContestName := ''Weekly 302'', ContestID := ''302''\<rparr>"

section \<open>The older revision\<close>







definition oldSubmission :: SubmissionData where
  "oldSubmission =
     \<lparr>ProblemUrl = ''u'', ProblemName = ''Two Sum'', SubmissionDate = ''2022-05-01'',
      SubmissionLanguage = ''go'', SubmissionStatus = ''AC'', CodeUrl = ''c''\<rparr>"




definition lastOr :: "'a \<Rightarrow> 'a list \<Rightarrow> 'a" where
  "lastOr z xs = (if xs = [] then z else last xs)"

section \<open>The response formatter\<close>

text \<open>The messages of package \<^verbatim>\<open>platformDatapb\<close> that the formatter fills. The fields
  of \<^verbatim>\<open>Contest\<close> whose names the record \<open>ContestData\<close> already has carry the prefix
  \<open>pb_\<close>.\<close>

record pb_Submission =
  Date :: string
  Language :: string
  ProblemStatus :: string
  ProblemTitle :: string
  ProblemLink :: string
  CodeLink :: string

record pb_Contest =
  pb_ContestName :: string
  pb_Rank :: float64
  pb_Rating :: float64
  ContestId :: float64
  pb_ContestDate :: string

text \<open>The loop of \<^verbatim>\<open>formatSubmissionSchemaToGRPCSubmission\<close>, with the slice it
  appends to as accumulator.\<close>

fun formatSubmission_loop :: "pb_Submission list \<Rightarrow> SubmissionData list \<Rightarrow> pb_Submission list" where
  "formatSubmission_loop grpcSubmissionData [] = grpcSubmissionData"
| "formatSubmission_loop grpcSubmissionData (submission # rest) =
     formatSubmission_loop
       (grpcSubmissionData @
          [\<lparr>Date = SubmissionDate submission,
            Language = SubmissionLanguage submission,
            ProblemStatus = SubmissionStatus submission,
            ProblemTitle = ProblemName submission,
            ProblemLink = ProblemUrl submission,
            CodeLink = CodeUrl submission\<rparr>])
       rest"

definition formatSubmissionSchemaToGRPCSubmission :: "SubmissionData list \<Rightarrow> pb_Submission list" where
  "formatSubmissionSchemaToGRPCSubmission submissionDataforDB =
     formatSubmission_loop [] submissionDataforDB"

text \<open>\<^verbatim>\<open>strconv.ParseFloat(s, 64)\<close> gives a number or an error; the formatter takes it
  as a parameter, so what is proved of the formatter holds for any behaviour of the
  parser.\<close>

datatype NumError = ErrSyntax | ErrRange

type_synonym parser = "string \<Rightarrow> NumError + float64"

fun formatContest_loop :: "parser \<Rightarrow> pb_Contest list \<Rightarrow> ContestData list \<Rightarrow> pb_Contest list outcome" where
  "formatContest_loop parseFloat grpcContestData [] = Return grpcContestData"
| "formatContest_loop parseFloat grpcContestData (contest # rest) =
     (case parseFloat (ContestID contest) of
        Inl err \<Rightarrow> Fatal
      | Inr contestIDParsedToFloat \<Rightarrow>
          formatContest_loop parseFloat
            (grpcContestData @
               [\<lparr>pb_ContestName = ContestName contest,
                 pb_Rank = Rank contest,
                 pb_Rating = Rating contest,
                 ContestId = contestIDParsedToFloat,
                 pb_ContestDate = ContestDate contest\<rparr>])
            rest)"

definition formatContestSchemaToGRPCContest :: "parser \<Rightarrow> ContestData list \<Rightarrow> pb_Contest list outcome" where
  "formatContestSchemaToGRPCContest parseFloat contestDataforDB =
     formatContest_loop parseFloat [] contestDataforDB"

subsection \<open>strconv.ParseFloat on decimal literals\<close>

text \<open>
  For the concrete instances, \<^verbatim>\<open>strconv.ParseFloat(s, 64)\<close> on the decimal form: an
  optional sign, digits with at most one point, an optional exponent; and the words
  \<open>inf\<close>, \<open>infinity\<close> (signed or not) and \<open>nan\<close> in any case. The result is the
  nearest float64, ties to even, as its bit pattern; a value that rounds beyond the
  largest finite float64 is \<^verbatim>\<open>ErrRange\<close>, and any other string \<^verbatim>\<open>ErrSyntax\<close>. The
  hexadecimal form and underscores between digits, which the Go function also reads,
  are not part of this model, and no instance below uses them.
\<close>

definition isDigit :: "char \<Rightarrow> bool" where
  "isDigit c = (let n = (of_char c :: nat) in 48 \<le> n \<and> n \<le> 57)"

definition digitVal :: "char \<Rightarrow> nat" where
  "digitVal c = of_char c - 48"

text \<open>The mantissa: its digits as a number, the count of digits behind the point,
  whether a digit was seen, and the rest of the input.\<close>

fun readMantissa :: "string \<Rightarrow> nat \<Rightarrow> nat \<Rightarrow> bool \<Rightarrow> bool \<Rightarrow> nat \<times> nat \<times> bool \<times> string" where
  "readMantissa [] m fd sawdot sawdigits = (m, fd, sawdigits, [])"
| "readMantissa (c # cs) m fd sawdot sawdigits =
     (if c = CHR ''.''
      then (if sawdot then (m, fd, sawdigits, c # cs) else readMantissa cs m fd True sawdigits)
      else if isDigit c
      then readMantissa cs (10 * m + digitVal c) (if sawdot then fd + 1 else fd) sawdot True
      else (m, fd, sawdigits, c # cs))"

fun readExpDigits :: "string \<Rightarrow> nat \<Rightarrow> nat \<times> string" where
  "readExpDigits [] e = (e, [])"
| "readExpDigits (c # cs) e =
     (if isDigit c then readExpDigits cs (if e < 10000 then e * 10 + digitVal c else e)
      else (e, c # cs))"

text \<open>The exponent part, \<open>None\<close> when it starts and is not well formed.\<close>

definition readExponent :: "string \<Rightarrow> (int \<times> string) option" where
  "readExponent s =
     (case s of
        [] \<Rightarrow> Some (0, [])
      | c # cs \<Rightarrow>
          if lower c = CHR ''e''
          then (case cs of
                  [] \<Rightarrow> None
                | d # ds \<Rightarrow>
                    (let esign = (if d = CHR ''-'' then - 1 else 1 :: int);
                         r = (if d = CHR ''+'' \<or> d = CHR ''-'' then ds else cs)
                     in case r of
                          [] \<Rightarrow> None
                        | x # xs \<Rightarrow>
                            if isDigit x
                            then (case readExpDigits r 0 of (e, rest) \<Rightarrow> Some (esign * int e, rest))
                            else None))
          else Some (0, s))"

fun bitlen :: "nat \<Rightarrow> nat" where
  "bitlen n = (if n = 0 then 0 else Suc (bitlen (n div 2)))"

declare bitlen.simps [simp del]

definition roundHalfEven :: "nat \<Rightarrow> nat \<Rightarrow> nat" where
  "roundHalfEven a b =
     (let q = a div b; r = a mod b
      in if b < 2 * r \<or> (2 * r = b \<and> odd q) then q + 1 else q)"

text \<open>The bits of the float64 nearest to \<open>a / b\<close> (\<open>b\<close> positive), without the sign:
  \<open>e\<close> is the binary exponent of the quotient, \<open>q\<close> the exponent of one unit in the
  last place (fixed at the subnormal one from \<open>- 1022\<close> down), \<open>m\<close> the rounded
  significand. Adding \<open>m\<close> to the exponent field carries into it when rounding reaches
  the next power of two.\<close>

definition float64_of_ratio :: "nat \<Rightarrow> nat \<Rightarrow> NumError + nat" where
  "float64_of_ratio a b =
     (if a = 0 then Inr 0
      else
        let e0 = int (bitlen a) - int (bitlen b);
            e = (if b * 2 ^ nat e0 \<le> a * 2 ^ nat (- e0) then e0 else e0 - 1);
            q = max e (- 1022) - 52;
            m = roundHalfEven (a * 2 ^ nat (- q)) (b * 2 ^ nat q);
            bits = nat (max e (- 1022) + 1022) * 2 ^ 52 + m
        in if 0x7FF0000000000000 \<le> bits then Inl ErrRange else Inr bits)"

definition special :: "string \<Rightarrow> float64 option" where
  "special s =
     (case s of
        [] \<Rightarrow> None
      | c # cs \<Rightarrow>
          if c = CHR ''+'' \<or> c = CHR ''-''
          then (if ToLower cs = ''inf'' \<or> ToLower cs = ''infinity''
                then Some (if c = CHR ''-'' then 0xFFF0000000000000 else 0x7FF0000000000000)
                else None)
          else if ToLower s = ''inf'' \<or> ToLower s = ''infinity'' then Some 0x7FF0000000000000
          else if ToLower s = ''nan'' then Some 0x7FF8000000000001
          else None)"

definition ParseFloat :: parser where
  "ParseFloat s =
     (case special s of
        Some f \<Rightarrow> Inr f
      | None \<Rightarrow>
          (case s of
             [] \<Rightarrow> Inl ErrSyntax
           | c # cs \<Rightarrow>
               (case readMantissa (if c = CHR ''+'' \<or> c = CHR ''-'' then cs else s) 0 0 False False of
                  (m, fd, sawdigits, r) \<Rightarrow>
                    if \<not> sawdigits then Inl ErrSyntax
                    else
                      (case readExponent r of
                         None \<Rightarrow> Inl ErrSyntax
                       | Some (e, rest) \<Rightarrow>
                           if rest \<noteq> [] then Inl ErrSyntax
                           else
                             (case float64_of_ratio (m * 10 ^ nat (e - int fd))
                                     (10 ^ nat (int fd - e)) of
                                Inl err \<Rightarrow> Inl err
                              | Inr bits \<Rightarrow>
                                  Inr (word_of_nat
                                         (bits + (if c = CHR ''-'' then 2 ^ 63 else 0))))))))"

text \<open>Stored contests for the concrete instances of the formatter.\<close>

definition contest12345 :: ContestData where
  "contest12345 = weekly300\<lparr>ContestName := ''Round 12345'', ContestID := ''12345''\<rparr>"

definition contestNoNumber :: ContestData where
  "contestNoNumber = weekly300\<lparr>ContestName := ''Round abc'', ContestID := ''abc''\<rparr>"

section \<open>Lemmas on decoding and on the reads\<close>

lemma ToLower_names:
  "ToLower ''Leetcode'' = ''leetcode''" "ToLower ''Codeforces'' = ''codeforces''"
  "ToLower ''Codechef'' = ''codechef''" "ToLower ''Cpoj'' = ''cpoj''"
  "ToLower ''Hackerearth'' = ''hackerearth''" "ToLower ''Atcoder'' = ''atcoder''"
  by code_simp+

lemma ToLower_keys:
  "ToLower ''leetcode'' = ''leetcode''" "ToLower ''codeforces'' = ''codeforces''"
  "ToLower ''codechef'' = ''codechef''" "ToLower ''cpoj'' = ''cpoj''"
  "ToLower ''hackerearth'' = ''hackerearth''" "ToLower ''atcoder'' = ''atcoder''"
  by code_simp+

lemma of_char_lower:
  "(of_char (lower c) :: nat) = (if 65 \<le> (of_char c :: nat) \<and> (of_char c :: nat) \<le> 90 then of_char c + 32 else of_char c)"
  by (simp add: lower_def Let_def)

lemma lower_idem: "lower (lower c) = lower c"
proof -
  have "(of_char (lower (lower c)) :: nat) = of_char (lower c)"
    by (simp add: of_char_lower)
  then show ?thesis by (simp only: of_char_eq_iff)
qed

lemma ToLower_idem: "ToLower (ToLower s) = ToLower s"
  by (simp add: ToLower_def lower_idem)

lemma resolver_names:
  "platform \<in> platformNames \<Longrightarrow> getPlatformDataDynamically p platform = Return (fieldOf platform p)"
  by (auto simp: platformNames_def fieldOf_def getPlatformDataDynamically_def)

lemma resolver_other:
  "platform \<notin> platformNames \<Longrightarrow> getPlatformDataDynamically p platform = Panic"
  by (auto simp: platformNames_def getPlatformDataDynamically_def)

lemma fieldOf_decodeField:
  "platform \<in> platformNames \<Longrightarrow>
   fieldOf platform (decodeField k d p) =
     (if ToLower k = ToLower platform then decodePlatformDataModel d (fieldOf platform p)
      else fieldOf platform p)"
  by (auto simp: platformNames_def fieldOf_def getPlatformDataDynamically_def decodeField_def
        ToLower_names Let_def)

lemma fieldOf_decode_skip:
  "platform \<in> platformNames \<Longrightarrow> \<forall>(k, d) \<in> set kvs. ToLower k \<noteq> ToLower platform \<Longrightarrow>
   fieldOf platform (decodePlatforms kvs p) = fieldOf platform p"
  by (induction kvs arbitrary: p) (auto simp: fieldOf_decodeField)

lemma filter_key:
  "distinct (map fst kvs) \<Longrightarrow>
   filter (\<lambda>(k, d). k = key) kvs = (case map_of kvs key of None \<Rightarrow> [] | Some d \<Rightarrow> [(key, d)])"
proof (induction kvs)
  case Nil
  then show ?case by simp
next
  case (Cons a kvs)
  obtain k d where a: "a = (k, d)" by (cases a)
  show ?case
  proof (cases "k = key")
    case True
    with Cons.prems a have "map_of kvs key = None"
      by (auto simp: map_of_eq_None_iff)
    with Cons a True show ?thesis by simp
  next
    case False
    with Cons a show ?thesis by simp
  qed
qed

lemma fieldOf_decode_wf:
  "platform \<in> platformNames \<Longrightarrow> distinct (map fst kvs) \<Longrightarrow> list_all (\<lambda>(k, d). ToLower k = k) kvs \<Longrightarrow>
   fieldOf platform (decodePlatforms kvs p) =
     (case map_of kvs (ToLower platform) of
        None \<Rightarrow> fieldOf platform p
      | Some d \<Rightarrow> decodePlatformDataModel d (fieldOf platform p))"
proof (induction kvs arbitrary: p)
  case Nil
  then show ?case by simp
next
  case (Cons a kvs)
  obtain k d where a: "a = (k, d)" by (cases a)
  show ?case
  proof (cases "k = ToLower platform")
    case True
    have "\<forall>(k', d') \<in> set kvs. ToLower k' \<noteq> ToLower platform"
    proof (clarify)
      fix k' d' assume in_kvs: "(k', d') \<in> set kvs" and eq: "ToLower k' = ToLower platform"
      from in_kvs Cons.prems(3) have "ToLower k' = k'" by (auto simp: list_all_iff)
      with eq True have "k' = k" by simp
      moreover from in_kvs have "k' \<in> fst ` set kvs" by force
      ultimately show False using Cons.prems(2) a by simp
    qed
    then show ?thesis
      using Cons.prems(1) a True
      by (simp add: fieldOf_decode_skip fieldOf_decodeField ToLower_idem split: option.split)
  next
    case False
    then have "ToLower k \<noteq> ToLower platform" using Cons.prems a by auto
    then have step: "fieldOf platform (decodeField k d p) = fieldOf platform p"
      using fieldOf_decodeField [OF Cons.prems(1), of k d p] by simp
    have "fieldOf platform (decodePlatforms kvs (decodeField k d p)) =
            (case map_of kvs (ToLower platform) of
               None \<Rightarrow> fieldOf platform (decodeField k d p)
             | Some d' \<Rightarrow> decodePlatformDataModel d' (fieldOf platform (decodeField k d p)))"
      using Cons.prems a by (intro Cons.IH) auto
    then show ?thesis using a False by (simp add: step split: option.split)
  qed
qed

lemma fieldOf_zero:
  "platform \<in> platformNames \<Longrightarrow> fieldOf platform zero_Platforms = zero_PlatformDataModel"
  by (auto simp: platformNames_def fieldOf_def getPlatformDataDynamically_def zero_Platforms_def)

lemma decode_projection:
  assumes "platform \<in> platformNames" "distinct (map fst (platformDataDoc doc))"
  shows "fieldOf platform (PlatformData (Unmarshal e (projection (ToLower platform) f doc))) =
     \<lparr>Handle = [], TotalSolved = 0, Ranking = 0,
      Contests = (case f of contests_field \<Rightarrow> storedContests doc (ToLower platform) | submissions_field \<Rightarrow> []),
      Submissions = (case f of contests_field \<Rightarrow> [] | submissions_field \<Rightarrow> storedSubmissions doc (ToLower platform))\<rparr>"
  using assms
  by (simp add: Unmarshal_def projection_def filter_key fieldOf_decodeField ToLower_idem
        fieldOf_zero decodePlatformDataModel_def projectField_def empty_PlatformDoc_def
        zero_PlatformDataModel_def storedContests_def storedSubmissions_def
      split: option.split log_field.split)

lemma GetLastContest_eq:
  assumes "available (selectedCollection db)" "documents (selectedCollection db) email = Some doc"
    "distinct (map fst (platformDataDoc doc))" "platform \<in> platformNames"
  shows "GetLastContest email platform db =
     Return (if storedContests doc (ToLower platform) = [] then zero_ContestData
             else last (storedContests doc (ToLower platform)))"
  using assms
  by (simp add: GetLastContest_def FindOne_def resolver_names decode_projection last_conv_nth)

lemma GetLastSubmission_eq:
  assumes "available (selectedCollection db)" "documents (selectedCollection db) email = Some doc"
    "distinct (map fst (platformDataDoc doc))" "platform \<in> platformNames"
  shows "GetLastSubmission email platform db =
     Return (if storedSubmissions doc (ToLower platform) = [] then zero_SubmissionData
             else last (storedSubmissions doc (ToLower platform)))"
  using assms
  by (simp add: GetLastSubmission_def FindOne_def resolver_names decode_projection last_conv_nth)

lemma Find_eq:
  assumes "available (selectedCollection db)" "documents (selectedCollection db) email = Some doc"
    "wellFormed doc" "platform \<in> platformNames"
  shows "FindContestsandSubmissionsFromDB db email platform =
     Return (storedContests doc (ToLower platform), storedSubmissions doc (ToLower platform))"
  using assms
  by (simp add: FindContestsandSubmissionsFromDB_def FindOne_def resolver_names Unmarshal_def
        wellFormed_def fieldOf_decode_wf fieldOf_zero decodePlatformDataModel_def
        zero_PlatformDataModel_def storedContests_def storedSubmissions_def
      split: option.split)


section \<open>Lemmas on the appends\<close>

lemma keys_pushContests:
  "map fst (pushContests key new kvs) =
     (if key \<in> fst ` set kvs then map fst kvs else map fst kvs @ [key])"
  by (induction kvs) (force simp: image_iff)+

lemma keys_pushSubmissions:
  "map fst (pushSubmissions key new kvs) =
     (if key \<in> fst ` set kvs then map fst kvs else map fst kvs @ [key])"
  by (induction kvs) (force simp: image_iff)+

lemma map_of_pushContests:
  "map_of (pushContests key new kvs) k =
     (if k = key
      then Some ((case map_of kvs key of None \<Rightarrow> empty_PlatformDoc | Some d \<Rightarrow> d)
                  \<lparr>contests := Some ((case map_of kvs key of None \<Rightarrow> []
                     | Some d \<Rightarrow> (case contests d of None \<Rightarrow> [] | Some old \<Rightarrow> old)) @ new)\<rparr>)
      else map_of kvs k)"
  by (induction kvs) (auto simp: empty_PlatformDoc_def)

lemma map_of_pushSubmissions:
  "map_of (pushSubmissions key new kvs) k =
     (if k = key
      then Some ((case map_of kvs key of None \<Rightarrow> empty_PlatformDoc | Some d \<Rightarrow> d)
                  \<lparr>submissions := Some ((case map_of kvs key of None \<Rightarrow> []
                     | Some d \<Rightarrow> (case submissions d of None \<Rightarrow> [] | Some old \<Rightarrow> old)) @ new)\<rparr>)
      else map_of kvs k)"
  by (induction kvs) (auto simp: empty_PlatformDoc_def)

lemma storedContests_push:
  "storedContests (doc\<lparr>platformDataDoc := pushContests key new (platformDataDoc doc)\<rparr>) k =
     (if k = key then storedContests doc key @ new else storedContests doc k)"
  by (simp add: storedContests_def map_of_pushContests split: option.split)

lemma storedSubmissions_pushContests:
  "storedSubmissions (doc\<lparr>platformDataDoc := pushContests key new (platformDataDoc doc)\<rparr>) k =
     storedSubmissions doc k"
  by (simp add: storedSubmissions_def map_of_pushContests empty_PlatformDoc_def split: option.split)

lemma storedSubmissions_push:
  "storedSubmissions (doc\<lparr>platformDataDoc := pushSubmissions key new (platformDataDoc doc)\<rparr>) k =
     (if k = key then storedSubmissions doc key @ new else storedSubmissions doc k)"
  by (simp add: storedSubmissions_def map_of_pushSubmissions split: option.split)

lemma storedContests_pushSubmissions:
  "storedContests (doc\<lparr>platformDataDoc := pushSubmissions key new (platformDataDoc doc)\<rparr>) k =
     storedContests doc k"
  by (simp add: storedContests_def map_of_pushSubmissions empty_PlatformDoc_def split: option.split)

lemma wellFormed_pushContests:
  "wellFormed doc \<Longrightarrow> ToLower key = key \<Longrightarrow>
   wellFormed (doc\<lparr>platformDataDoc := pushContests key new (platformDataDoc doc)\<rparr>)"
proof -
  assume wf: "wellFormed doc" and low: "ToLower key = key"
  have "list_all (\<lambda>(k, d). ToLower k = k) (pushContests key new kvs)"
    if "list_all (\<lambda>(k, d). ToLower k = k) kvs" for kvs :: "(string \<times> 'a PlatformDoc) list"
    using that low by (induction kvs) auto
  with wf show ?thesis
    by (auto simp: wellFormed_def keys_pushContests)
qed

lemma wellFormed_pushSubmissions:
  "wellFormed doc \<Longrightarrow> ToLower key = key \<Longrightarrow>
   wellFormed (doc\<lparr>platformDataDoc := pushSubmissions key new (platformDataDoc doc)\<rparr>)"
proof -
  assume wf: "wellFormed doc" and low: "ToLower key = key"
  have "list_all (\<lambda>(k, d). ToLower k = k) (pushSubmissions key new kvs)"
    if "list_all (\<lambda>(k, d). ToLower k = k) kvs" for kvs :: "(string \<times> 'a PlatformDoc) list"
    using that low by (induction kvs) auto
  with wf show ?thesis
    by (auto simp: wellFormed_def keys_pushSubmissions)
qed

lemma AppendContestData_eq:
  "available (selectedCollection db) \<Longrightarrow>
   AppendContestData db email platform new =
     (Return None,
      case documents (selectedCollection db) email of
        None \<Rightarrow> db
      | Some doc \<Rightarrow>
          db\<lparr>selectedCollection := (selectedCollection db)\<lparr>documents :=
               (documents (selectedCollection db))
                 (email \<mapsto> doc\<lparr>platformDataDoc :=
                    pushContests (ToLower platform) new (platformDataDoc doc)\<rparr>)\<rparr>\<rparr>)"
  by (simp add: AppendContestData_def UpdateOne_def split: option.split)

lemma AppendSubmissionData_eq:
  "available (selectedCollection db) \<Longrightarrow>
   AppendSubmissionData db email platform new =
     (Return None,
      case documents (selectedCollection db) email of
        None \<Rightarrow> db
      | Some doc \<Rightarrow>
          db\<lparr>selectedCollection := (selectedCollection db)\<lparr>documents :=
               (documents (selectedCollection db))
                 (email \<mapsto> doc\<lparr>platformDataDoc :=
                    pushSubmissions (ToLower platform) new (platformDataDoc doc)\<rparr>)\<rparr>\<rparr>)"
  by (simp add: AppendSubmissionData_def UpdateOne_def split: option.split)

lemma append_contests_step:
  assumes av: "available (selectedCollection db)"
    and doc: "documents (selectedCollection db) email = Some doc"
    and wf: "wellFormed doc"
    and a: "AppendContestData db email platform new = (r, db')"
  shows "r = Return None \<and> available (selectedCollection db') \<and>
         documents (selectedCollection db') email =
           Some (doc\<lparr>platformDataDoc := pushContests (ToLower platform) new (platformDataDoc doc)\<rparr>) \<and>
         wellFormed (doc\<lparr>platformDataDoc := pushContests (ToLower platform) new (platformDataDoc doc)\<rparr>)"
  using a av doc wellFormed_pushContests [OF wf ToLower_idem, of platform new]
  by (auto simp: AppendContestData_eq)



section \<open>Lemmas on missing users and unknown names\<close>

lemma reads_unknown_email:
  assumes "documents (selectedCollection db) email = None"
  shows "GetLastContest email platform db = Fatal"
    and "GetLastSubmission email platform db = Fatal"
    and "FindContestsandSubmissionsFromDB db email platform = Fatal"
  using assms
  by (simp_all add: GetLastContest_def GetLastSubmission_def
        FindContestsandSubmissionsFromDB_def FindOne_def)

lemma appends_unknown_email:
  assumes "documents (selectedCollection db) email = None"
  shows "AppendContestData db email platform cs =
           (if available (selectedCollection db) then Return None else Fatal, db)"
    and "AppendSubmissionData db email platform ss =
           (if available (selectedCollection db) then Return None else Fatal, db)"
  using assms
  by (simp_all add: AppendContestData_def AppendSubmissionData_def UpdateOne_def)

lemma reads_unknown_platform:
  assumes "platform \<notin> platformNames"
  shows "GetLastContest email platform db =
           (if available (selectedCollection db) \<and> documents (selectedCollection db) email \<noteq> None
            then Panic else Fatal)"
    and "GetLastSubmission email platform db =
           (if available (selectedCollection db) \<and> documents (selectedCollection db) email \<noteq> None
            then Panic else Fatal)"
    and "FindContestsandSubmissionsFromDB db email platform =
           (if available (selectedCollection db) \<and> documents (selectedCollection db) email \<noteq> None
            then Panic else Fatal)"
  using assms
  by (auto simp: GetLastContest_def GetLastSubmission_def
        FindContestsandSubmissionsFromDB_def FindOne_def resolver_other)

lemma append_submissions_step:
  assumes av: "available (selectedCollection db)"
    and doc: "documents (selectedCollection db) email = Some doc"
  shows "AppendSubmissionData db email platform new =
     (Return None,
      db\<lparr>selectedCollection := (selectedCollection db)\<lparr>documents :=
           (documents (selectedCollection db))
             (email \<mapsto> doc\<lparr>platformDataDoc :=
                pushSubmissions (ToLower platform) new (platformDataDoc doc)\<rparr>)\<rparr>\<rparr>)"
  using av doc by (simp add: AppendSubmissionData_eq)

lemma append_contests_found:
  assumes av: "available (selectedCollection db)"
    and doc: "documents (selectedCollection db) email = Some doc"
  shows "AppendContestData db email platform new =
     (Return None,
      db\<lparr>selectedCollection := (selectedCollection db)\<lparr>documents :=
           (documents (selectedCollection db))
             (email \<mapsto> doc\<lparr>platformDataDoc :=
                pushContests (ToLower platform) new (platformDataDoc doc)\<rparr>)\<rparr>\<rparr>)"
  using av doc by (simp add: AppendContestData_eq)

lemma example_facts:
  "available (selectedCollection exampleDB)"
  "documents (selectedCollection exampleDB) ''a@x.com'' = Some exampleDoc"
  "documents (selectedCollection exampleDB) ''nobody@x.com'' = None"
  "wellFormed exampleDoc"
  "distinct (map fst (platformDataDoc exampleDoc))"
  by (simp_all add: exampleDB_def exampleDoc_def wellFormed_def ToLower_keys)

lemma example_logs:
  "storedContests exampleDoc ''leetcode'' = []"
  "storedSubmissions exampleDoc ''leetcode'' = []"
  "storedContests exampleDoc ''codeforces'' = [weekly300]"
  "storedSubmissions exampleDoc ''codeforces'' = []"
  by (simp_all add: storedContests_def storedSubmissions_def exampleDoc_def
        empty_PlatformDoc_def)


section \<open>Lemmas on what an append leaves alone\<close>









section \<open>Lemmas on the older reads\<close>






section \<open>Lemmas on the formatter\<close>

lemma formatSubmission_loop_map:
  "formatSubmission_loop acc ss =
     acc @ map (\<lambda>s. \<lparr>Date = SubmissionDate s, Language = SubmissionLanguage s,
                       ProblemStatus = SubmissionStatus s, ProblemTitle = ProblemName s,
                       ProblemLink = ProblemUrl s, CodeLink = CodeUrl s\<rparr>) ss"
  by (induction ss arbitrary: acc) simp_all

lemma formatContest_loop_map:
  "formatContest_loop pf acc cs =
     (if list_all (\<lambda>c. \<not> isl (pf (ContestID c))) cs
      then Return (acc @ map (\<lambda>c. \<lparr>pb_ContestName = ContestName c, pb_Rank = Rank c,
                                      pb_Rating = Rating c, ContestId = projr (pf (ContestID c)),
                                      pb_ContestDate = ContestDate c\<rparr>) cs)
      else Fatal)"
proof (induction cs arbitrary: acc)
  case Nil
  then show ?case by simp
next
  case (Cons c cs)
  show ?case
  proof (cases "pf (ContestID c)")
    case (Inl err)
    then show ?thesis by simp
  next
    case (Inr v)
    then show ?thesis by (simp add: Cons.IH)
  qed
qed

lemma bitlen_examples: "bitlen (Suc 0) = Suc 0" "bitlen 12345 = 14"
  by (simp_all add: bitlen.simps [of "numeral n" for n] bitlen.simps [of "Suc 0"]
        bitlen.simps [of 0])

lemma special_examples:
  "special ''12345'' = None" "special ''abc'' = None" "special [] = None"
  by code_simp+

lemma readMantissa_examples:
  "readMantissa ''12345'' 0 0 False False = (12345, 0, True, [])"
  "readMantissa ''abc'' 0 0 False False = (0, 0, False, ''abc'')"
  by code_simp+

lemma float64_of_12345: "float64_of_ratio 12345 (Suc 0) = Inr 0x40C81C8000000000"
  by (simp add: float64_of_ratio_def bitlen_examples roundHalfEven_def Let_def)

lemma ParseFloat_examples:
  "ParseFloat ''12345'' = Inr 0x40C81C8000000000"
  "ParseFloat ''abc'' = Inl ErrSyntax"
  "ParseFloat [] = Inl ErrSyntax"
  by (simp_all add: ParseFloat_def special_examples readMantissa_examples readExponent_def
        float64_of_12345
      del: readMantissa.simps)

section \<open>The claims\<close>




text \<open>
  C2. For a user the store has, with a well-formed document, and a platform named as the
  resolver accepts it: after \<open>AppendContestData\<close> with \<open>[c1, c2]\<close> and then with
  \<open>[c3]\<close>, both calls return \<open>nil\<close>, the stored contest log is the prior log followed
  by \<open>c1, c2, c3\<close> (no prior entry rewritten or deleted), \<open>GetLastContest\<close> returns
  \<open>c3\<close>, and \<open>FindContestsandSubmissionsFromDB\<close> returns that whole log together with
  the untouched submission log.
\<close>

theorem appends_extend_log_in_order:
  assumes av: "available (selectedCollection db)"
    and doc: "documents (selectedCollection db) email = Some doc"
    and wf: "wellFormed doc"
    and p: "platform \<in> platformNames"
    and a1: "AppendContestData db email platform [c1, c2] = (r1, db1)"
    and a2: "AppendContestData db1 email platform [c3] = (r2, db2)"
  shows "r1 = Return None \<and> r2 = Return None \<and>
         map_option (\<lambda>d. storedContests d (ToLower platform))
             (documents (selectedCollection db2) email) =
           Some (storedContests doc (ToLower platform) @ [c1, c2, c3]) \<and>
         GetLastContest email platform db2 = Return c3 \<and>
         FindContestsandSubmissionsFromDB db2 email platform =
           Return (storedContests doc (ToLower platform) @ [c1, c2, c3],
                   storedSubmissions doc (ToLower platform))"
proof -
  let ?k = "ToLower platform"
  let ?doc1 = "doc\<lparr>platformDataDoc := pushContests ?k [c1, c2] (platformDataDoc doc)\<rparr>"
  let ?doc2 = "?doc1\<lparr>platformDataDoc := pushContests ?k [c3] (platformDataDoc ?doc1)\<rparr>"
  from append_contests_step [OF av doc wf a1]
  have s1: "r1 = Return None" "available (selectedCollection db1)"
    "documents (selectedCollection db1) email = Some ?doc1" "wellFormed ?doc1"
    by simp_all
  from append_contests_step [OF s1(2) s1(3) s1(4) a2]
  have s2: "r2 = Return None" "available (selectedCollection db2)"
    "documents (selectedCollection db2) email = Some ?doc2" "wellFormed ?doc2"
    by simp_all
  have log: "storedContests ?doc2 ?k = storedContests doc ?k @ [c1, c2, c3]"
    by (simp only: storedContests_push if_True append_assoc) simp
  have subs: "storedSubmissions ?doc2 ?k = storedSubmissions doc ?k"
    by (simp only: storedSubmissions_pushContests)
  have d: "distinct (map fst (platformDataDoc ?doc2))"
    using s2(4) by (simp add: wellFormed_def)
  have g: "GetLastContest email platform db2 = Return c3"
    using GetLastContest_eq [OF s2(2) s2(3) d p] by (simp only: log) simp
  have f: "FindContestsandSubmissionsFromDB db2 email platform =
             Return (storedContests doc ?k @ [c1, c2, c3], storedSubmissions doc ?k)"
    using Find_eq [OF s2(2) s2(3) s2(4) p] by (simp only: log subs)
  show ?thesis
    using s1(1) s2(1) s2(3) log g f by simp
qed

theorem appends_extend_log_in_order_witness:
  "available (selectedCollection exampleDB) \<and>
   documents (selectedCollection exampleDB) ''a@x.com'' = Some exampleDoc \<and>
   wellFormed exampleDoc \<and> ''Codeforces'' \<in> platformNames \<and>
   GetLastContest ''a@x.com'' ''Codeforces''
     (snd (AppendContestData
             (snd (AppendContestData exampleDB ''a@x.com'' ''Codeforces'' [contestA, contestB]))
             ''a@x.com'' ''Codeforces'' [contestC])) = Return contestC \<and>
   FindContestsandSubmissionsFromDB
     (snd (AppendContestData
             (snd (AppendContestData exampleDB ''a@x.com'' ''Codeforces'' [contestA, contestB]))
             ''a@x.com'' ''Codeforces'' [contestC])) ''a@x.com'' ''Codeforces'' =
     Return ([weekly300, contestA, contestB, contestC], [])"
proof -
  have h: "available (selectedCollection exampleDB)"
    "documents (selectedCollection exampleDB) ''a@x.com'' = Some exampleDoc"
    "wellFormed exampleDoc" "''Codeforces'' \<in> platformNames"
    by (simp_all add: exampleDB_def exampleDoc_def platformNames_def wellFormed_def
          ToLower_keys)
  have e: "storedContests exampleDoc (ToLower ''Codeforces'') = [weekly300]"
    "storedSubmissions exampleDoc (ToLower ''Codeforces'') = []"
    by (simp_all add: ToLower_names storedContests_def storedSubmissions_def exampleDoc_def
          empty_PlatformDoc_def)
  show ?thesis
    using h e appends_extend_log_in_order [OF h surjective_pairing surjective_pairing,
        of contestA contestB contestC]
    by simp
qed

text \<open>
  C3, as the code has it. For an email with no user document, \<open>GetLastContest\<close>,
  \<open>GetLastSubmission\<close> and \<open>FindContestsandSubmissionsFromDB\<close> end the process through
  \<open>log.Fatalf\<close>: no value, zero or other, reaches the caller, and no error value
  either. \<open>AppendContestData\<close> and \<open>AppendSubmissionData\<close>, when the store answers,
  return \<open>nil\<close> and leave the collection as it was.
\<close>

theorem unknown_email_reads_exit_appends_return_nil:
  assumes "documents (selectedCollection db) email = None"
  shows "GetLastContest email platform db = Fatal \<and>
         GetLastSubmission email platform db = Fatal \<and>
         FindContestsandSubmissionsFromDB db email platform = Fatal \<and>
         AppendContestData db email platform cs =
           (if available (selectedCollection db) then Return None else Fatal, db) \<and>
         AppendSubmissionData db email platform ss =
           (if available (selectedCollection db) then Return None else Fatal, db)"
  using assms
  by (simp add: reads_unknown_email appends_unknown_email)

theorem unknown_email_witness:
  "documents (selectedCollection exampleDB) ''nobody@x.com'' = None \<and>
   GetLastSubmission ''nobody@x.com'' ''Leetcode'' exampleDB = Fatal \<and>
   FindContestsandSubmissionsFromDB exampleDB ''nobody@x.com'' ''Leetcode'' = Fatal \<and>
   AppendSubmissionData exampleDB ''nobody@x.com'' ''Leetcode'' [zero_SubmissionData] =
     (Return None, exampleDB)"
  using unknown_email_reads_exit_appends_return_nil [OF example_facts(3), of "''Leetcode''"]
    example_facts(1,3)
  by simp

text \<open>The claim fails at this input: the append for an email the store does not have
  reports success, and the read ends the process instead of returning a failure.\<close>

theorem unknown_email_counterexample:
  "AppendContestData exampleDB ''nobody@x.com'' ''Leetcode'' [weekly300] =
     (Return None, exampleDB) \<and>
   GetLastContest ''nobody@x.com'' ''Leetcode'' exampleDB = Fatal"
  using example_facts(1,3)
  by (simp add: reads_unknown_email appends_unknown_email)

text \<open>
  C4, as the code has it. For every name that is not one of the six field names the
  resolver panics; it has no error result. The three reads, which call it after the
  find, then return nothing: they panic when the user's document was found and end
  the process through \<open>log.Fatalf\<close> when it was not, so none of them returns another
  platform's data or a zero value.
\<close>

theorem unknown_platform_panics:
  assumes "platform \<notin> platformNames"
  shows "getPlatformDataDynamically p platform = Panic \<and>
         GetLastContest email platform db =
           (if available (selectedCollection db) \<and>
               documents (selectedCollection db) email \<noteq> None
            then Panic else Fatal) \<and>
         GetLastSubmission email platform db =
           (if available (selectedCollection db) \<and>
               documents (selectedCollection db) email \<noteq> None
            then Panic else Fatal) \<and>
         FindContestsandSubmissionsFromDB db email platform =
           (if available (selectedCollection db) \<and>
               documents (selectedCollection db) email \<noteq> None
            then Panic else Fatal)"
  using assms
  by (simp only: resolver_other reads_unknown_platform simp_thms)

theorem unknown_platform_witness:
  "''Spoj'' \<notin> platformNames \<and>
   getPlatformDataDynamically (PlatformData (Unmarshal [] exampleDoc)) ''Spoj'' = Panic \<and>
   GetLastContest ''a@x.com'' ''Spoj'' exampleDB = Panic \<and>
   GetLastSubmission ''nobody@x.com'' ''Spoj'' exampleDB = Fatal"
proof -
  have h: "''Spoj'' \<notin> platformNames" by (simp add: platformNames_def)
  show ?thesis
    using h example_facts(1,2,3)
      unknown_platform_panics [OF h, of "PlatformData (Unmarshal [] exampleDoc)" "''a@x.com''" exampleDB]
      unknown_platform_panics [OF h, of "PlatformData (Unmarshal [] exampleDoc)" "''nobody@x.com''" exampleDB]
    by simp
qed

text \<open>The claim fails at this input: for a name outside the set the resolver gives no
  error value, it panics.\<close>

theorem unknown_platform_counterexample:
  "getPlatformDataDynamically (zero_Platforms :: ContestData Platforms) ''Gfg'' = Panic"
  by (simp add: getPlatformDataDynamically_def)

text \<open>
  C5, as the code has it. Take any casing of one of the six names, a user the store
  has and a well-formed document. The storage path is the lower-cased name in every
  operation, and the appends, which do not call the resolver, extend the log stored
  there whatever the casing. The resolver compares the name exactly: when the name is
  spelled as the struct field, the three reads return from the sub-document under the
  lower-cased name; in any other casing they panic.
\<close>

theorem platform_name_casing:
  assumes "available (selectedCollection db)"
    and "documents (selectedCollection db) email = Some doc"
    and "wellFormed doc"
    and "ToLower platform \<in> ToLower ` platformNames"
  shows "(platform \<in> platformNames \<longrightarrow>
            GetLastContest email platform db =
              Return (lastOr zero_ContestData (storedContests doc (ToLower platform))) \<and>
            GetLastSubmission email platform db =
              Return (lastOr zero_SubmissionData (storedSubmissions doc (ToLower platform))) \<and>
            FindContestsandSubmissionsFromDB db email platform =
              Return (storedContests doc (ToLower platform),
                      storedSubmissions doc (ToLower platform))) \<and>
         (platform \<notin> platformNames \<longrightarrow>
            GetLastContest email platform db = Panic \<and>
            GetLastSubmission email platform db = Panic \<and>
            FindContestsandSubmissionsFromDB db email platform = Panic) \<and>
         map_option (\<lambda>d. storedContests d (ToLower platform))
             (documents (selectedCollection (snd (AppendContestData db email platform cs))) email) =
           Some (storedContests doc (ToLower platform) @ cs) \<and>
         map_option (\<lambda>d. storedSubmissions d (ToLower platform))
             (documents (selectedCollection (snd (AppendSubmissionData db email platform ss))) email) =
           Some (storedSubmissions doc (ToLower platform) @ ss)"
proof -
  have d: "distinct (map fst (platformDataDoc doc))"
    using assms(3) by (simp add: wellFormed_def)
  have exact: "platform \<in> platformNames \<longrightarrow>
            GetLastContest email platform db =
              Return (lastOr zero_ContestData (storedContests doc (ToLower platform))) \<and>
            GetLastSubmission email platform db =
              Return (lastOr zero_SubmissionData (storedSubmissions doc (ToLower platform))) \<and>
            FindContestsandSubmissionsFromDB db email platform =
              Return (storedContests doc (ToLower platform),
                      storedSubmissions doc (ToLower platform))"
    using assms(1,2,3) d
    by (simp add: GetLastContest_eq GetLastSubmission_eq Find_eq lastOr_def)
  have other: "platform \<notin> platformNames \<longrightarrow>
            GetLastContest email platform db = Panic \<and>
            GetLastSubmission email platform db = Panic \<and>
            FindContestsandSubmissionsFromDB db email platform = Panic"
    using assms(1,2) by (simp add: reads_unknown_platform)
  have ac: "map_option (\<lambda>d. storedContests d (ToLower platform))
             (documents (selectedCollection (snd (AppendContestData db email platform cs))) email) =
           Some (storedContests doc (ToLower platform) @ cs)"
    by (simp add: append_contests_found [OF assms(1,2)] storedContests_push)
  have as: "map_option (\<lambda>d. storedSubmissions d (ToLower platform))
             (documents (selectedCollection (snd (AppendSubmissionData db email platform ss))) email) =
           Some (storedSubmissions doc (ToLower platform) @ ss)"
    by (simp add: append_submissions_step [OF assms(1,2)] storedSubmissions_push)
  from exact other ac as show ?thesis by blast
qed

theorem platform_name_casing_witness:
  "available (selectedCollection exampleDB) \<and>
   documents (selectedCollection exampleDB) ''a@x.com'' = Some exampleDoc \<and>
   wellFormed exampleDoc \<and>
   ToLower ''CodeForces'' \<in> ToLower ` platformNames \<and>
   ''CodeForces'' \<notin> platformNames \<and>
   FindContestsandSubmissionsFromDB exampleDB ''a@x.com'' ''CodeForces'' = Panic \<and>
   map_option (\<lambda>d. storedContests d ''codeforces'')
     (documents (selectedCollection
        (snd (AppendContestData exampleDB ''a@x.com'' ''CodeForces'' [contestA]))) ''a@x.com'') =
     Some [weekly300, contestA]"
proof -
  have l: "ToLower ''CodeForces'' = ''codeforces''" by code_simp
  have h: "ToLower ''CodeForces'' \<in> ToLower ` platformNames"
    by (simp add: l platformNames_def ToLower_names)
  have n: "''CodeForces'' \<notin> platformNames" by (simp add: platformNames_def)
  show ?thesis
    using h n example_facts(1,2,4)
      platform_name_casing [OF example_facts(1,2,4) h, of "[contestA]" "[]"]
    by (simp add: l example_logs)
qed

text \<open>The claim fails at this input: in lower case the name reaches the same storage
  path as the field spelling, but the resolver panics on it.\<close>

theorem platform_name_casing_counterexample:
  "GetLastContest ''a@x.com'' ''Codeforces'' exampleDB = Return weekly300 \<and>
   GetLastContest ''a@x.com'' ''codeforces'' exampleDB = Panic"
proof -
  have a: "GetLastContest ''a@x.com'' ''Codeforces'' exampleDB = Return weekly300"
    using GetLastContest_eq [OF example_facts(1,2,5), of "''Codeforces''"]
    by (simp add: platformNames_def ToLower_names example_logs)
  have b: "GetLastContest ''a@x.com'' ''codeforces'' exampleDB = Panic"
    using example_facts(1,2) by (simp add: reads_unknown_platform platformNames_def)
  from a b show ?thesis by simp
qed







text \<open>
  C6, as the code has it. The formatter parses the string \<open>ContestID\<close> of a stored
  \<open>ContestData\<close> with \<open>strconv.ParseFloat\<close> and puts the number into \<open>ContestId\<close>:
  the string \<open>12345\<close> gives the float64 12345 (bit pattern \<open>0x40C81C8000000000\<close>).
  When the \<open>ContestID\<close> of any record of the input does not parse, the formatter
  returns nothing: \<open>log.Fatalf\<close> ends the process, so there is no record with a zero
  in place of the number, and no error value either.
\<close>

theorem contest_id_parsed_or_process_ends:
  "(pf (ContestID c) = Inr v \<longrightarrow>
      formatContestSchemaToGRPCContest pf [c] =
        Return [\<lparr>pb_ContestName = ContestName c, pb_Rank = Rank c, pb_Rating = Rating c,
                 ContestId = v, pb_ContestDate = ContestDate c\<rparr>]) \<and>
   (c \<in> set cs \<and> pf (ContestID c) = Inl err \<longrightarrow>
      formatContestSchemaToGRPCContest pf cs = Fatal) \<and>
   ParseFloat ''12345'' = Inr 0x40C81C8000000000"
proof (intro conjI impI)
  assume "pf (ContestID c) = Inr v"
  then show "formatContestSchemaToGRPCContest pf [c] =
        Return [\<lparr>pb_ContestName = ContestName c, pb_Rank = Rank c, pb_Rating = Rating c,
                 ContestId = v, pb_ContestDate = ContestDate c\<rparr>]"
    by (simp add: formatContestSchemaToGRPCContest_def)
next
  assume "c \<in> set cs \<and> pf (ContestID c) = Inl err"
  then have "\<not> list_all (\<lambda>c. \<not> isl (pf (ContestID c))) cs"
    by (force simp: list_all_iff)
  then show "formatContestSchemaToGRPCContest pf cs = Fatal"
    by (simp add: formatContestSchemaToGRPCContest_def formatContest_loop_map)
next
  show "ParseFloat ''12345'' = Inr 0x40C81C8000000000"
    by (rule ParseFloat_examples(1))
qed

theorem contest_id_parsed_witness:
  "ParseFloat (ContestID contest12345) = Inr 0x40C81C8000000000 \<and>
   formatContestSchemaToGRPCContest ParseFloat [contest12345] =
     Return [\<lparr>pb_ContestName = ''Round 12345'', pb_Rank = 0x4097700000000000,
              pb_Rating = 0x4099000000000000, ContestId = 0x40C81C8000000000,
              pb_ContestDate = ''2022-07-03''\<rparr>] \<and>
   contestNoNumber \<in> set [weekly300, contestNoNumber] \<and>
   ParseFloat (ContestID contestNoNumber) = Inl ErrSyntax \<and>
   formatContestSchemaToGRPCContest ParseFloat [weekly300, contestNoNumber] = Fatal"
proof -
  have a: "ParseFloat (ContestID contest12345) = Inr 0x40C81C8000000000"
    by (simp add: contest12345_def weekly300_def ParseFloat_examples)
  have b: "ParseFloat (ContestID contestNoNumber) = Inl ErrSyntax"
    by (simp add: contestNoNumber_def weekly300_def ParseFloat_examples)
  have c: "contestNoNumber \<in> set [weekly300, contestNoNumber]" by simp
  show ?thesis
    using a b c
      contest_id_parsed_or_process_ends [of ParseFloat contest12345 "0x40C81C8000000000"]
      contest_id_parsed_or_process_ends [of ParseFloat contestNoNumber _
        "[weekly300, contestNoNumber]" ErrSyntax]
    by (simp add: contest12345_def weekly300_def)
qed

text \<open>The claim fails at this input: the second record's \<open>ContestID\<close> is no number,
  and the call gives no error value; the process ends.\<close>

theorem contest_id_counterexample:
  "formatContestSchemaToGRPCContest ParseFloat [contest12345, contestNoNumber] = Fatal"
  by (simp add: formatContestSchemaToGRPCContest_def contest12345_def contestNoNumber_def
        weekly300_def ParseFloat_examples)

text \<open>
  C7, as the code has it. \<open>formatSubmissionSchemaToGRPCSubmission\<close> gives, for every
  input, one record per input record in input order with \<open>Date\<close>, \<open>Language\<close>,
  \<open>ProblemStatus\<close>, \<open>ProblemTitle\<close>, \<open>ProblemLink\<close>, \<open>CodeLink\<close> taken from
  \<open>SubmissionDate\<close>, \<open>SubmissionLanguage\<close>, \<open>SubmissionStatus\<close>, \<open>ProblemName\<close>,
  \<open>ProblemUrl\<close>, \<open>CodeUrl\<close>. \<open>formatContestSchemaToGRPCContest\<close> gives, for every
  input whose \<open>ContestID\<close>s all parse, one record per input record in input order with
  the contest name, rank, rating, the parsed \<open>ContestID\<close> and the contest date; for any
  other input it returns nothing, the process ends.
\<close>

theorem formatter_field_mapping:
  "formatSubmissionSchemaToGRPCSubmission ss =
     map (\<lambda>s. \<lparr>Date = SubmissionDate s, Language = SubmissionLanguage s,
                 ProblemStatus = SubmissionStatus s, ProblemTitle = ProblemName s,
                 ProblemLink = ProblemUrl s, CodeLink = CodeUrl s\<rparr>) ss \<and>
   formatContestSchemaToGRPCContest pf cs =
     (if list_all (\<lambda>c. \<not> isl (pf (ContestID c))) cs
      then Return (map (\<lambda>c. \<lparr>pb_ContestName = ContestName c, pb_Rank = Rank c,
                                pb_Rating = Rating c, ContestId = projr (pf (ContestID c)),
                                pb_ContestDate = ContestDate c\<rparr>) cs)
      else Fatal)"
  by (simp add: formatSubmissionSchemaToGRPCSubmission_def formatSubmission_loop_map
        formatContestSchemaToGRPCContest_def formatContest_loop_map)

theorem formatter_field_mapping_witness:
  "formatSubmissionSchemaToGRPCSubmission [oldSubmission, zero_SubmissionData] =
     [\<lparr>Date = ''2022-05-01'', Language = ''go'', ProblemStatus = ''AC'',
       ProblemTitle = ''Two Sum'', ProblemLink = ''u'', CodeLink = ''c''\<rparr>,
      \<lparr>Date = [], Language = [], ProblemStatus = [], ProblemTitle = [], ProblemLink = [],
       CodeLink = []\<rparr>] \<and>
   formatContestSchemaToGRPCContest ParseFloat [contest12345] =
     Return [\<lparr>pb_ContestName = ''Round 12345'', pb_Rank = 0x4097700000000000,
              pb_Rating = 0x4099000000000000, ContestId = 0x40C81C8000000000,
              pb_ContestDate = ''2022-07-03''\<rparr>]"
  using formatter_field_mapping [of "[oldSubmission, zero_SubmissionData]" ParseFloat "[contest12345]"]
  by (simp add: oldSubmission_def zero_SubmissionData_def contest12345_def weekly300_def
        ParseFloat_examples)

text \<open>The claim fails at this input: the zero-valued record, which \<open>GetLastContest\<close>
  returns for an empty log, has the empty string as \<open>ContestID\<close>, and formatting it
  produces no record.\<close>

theorem formatter_field_mapping_counterexample:
  "formatContestSchemaToGRPCContest ParseFloat [zero_ContestData] = Fatal"
  by (simp add: formatContestSchemaToGRPCContest_def zero_ContestData_def ParseFloat_examples)

section \<open>Further properties\<close>

text \<open>
  The scenario of the specification: for a user the store has, a well-formed document
  and a platform named as the resolver accepts it, \<open>GetLastContest\<close> after an
  \<open>AppendContestData\<close> of a non-empty sequence returns the last entry of that sequence.
\<close>

theorem last_contest_after_append:
  assumes "available (selectedCollection db)"
    and "documents (selectedCollection db) email = Some doc"
    and "wellFormed doc"
    and "platform \<in> platformNames"
    and "new \<noteq> []"
  shows "GetLastContest email platform (snd (AppendContestData db email platform new)) =
           Return (last new)"
proof -
  obtain r db' where a: "AppendContestData db email platform new = (r, db')"
    by (cases "AppendContestData db email platform new")
  let ?doc' = "doc\<lparr>platformDataDoc := pushContests (ToLower platform) new (platformDataDoc doc)\<rparr>"
  from append_contests_step [OF assms(1,2,3) a]
  have s: "available (selectedCollection db')"
    "documents (selectedCollection db') email = Some ?doc'" "wellFormed ?doc'"
    by simp_all
  have d: "distinct (map fst (platformDataDoc ?doc'))"
    using s(3) by (simp add: wellFormed_def)
  have "storedContests ?doc' (ToLower platform) = storedContests doc (ToLower platform) @ new"
    by (simp only: storedContests_push) simp
  then show ?thesis
    using GetLastContest_eq [OF s(1) s(2) d assms(4)] assms(5) a by simp
qed

theorem last_contest_after_append_witness:
  "available (selectedCollection exampleDB) \<and>
   documents (selectedCollection exampleDB) ''a@x.com'' = Some exampleDoc \<and>
   wellFormed exampleDoc \<and> ''Leetcode'' \<in> platformNames \<and>
   storedContests exampleDoc ''leetcode'' = [] \<and>
   GetLastContest ''a@x.com'' ''Leetcode''
     (snd (AppendContestData exampleDB ''a@x.com'' ''Leetcode'' [weekly300])) = Return weekly300"
proof -
  have p: "''Leetcode'' \<in> platformNames" by (simp add: platformNames_def)
  show ?thesis
    using p example_facts(1,2,4) example_logs(1)
      last_contest_after_append [OF example_facts(1,2,4) p, of "[weekly300]"]
    by simp
qed

text \<open>
  When the store does not answer, every operation ends the process through
  \<open>log.Fatalf\<close> and the collection is as it was: no error value reaches the caller.
\<close>

theorem store_unavailable_ends_process:
  assumes "\<not> available (selectedCollection db)"
  shows "GetLastContest email platform db = Fatal \<and>
         GetLastSubmission email platform db = Fatal \<and>
         FindContestsandSubmissionsFromDB db email platform = Fatal \<and>
         AppendContestData db email platform cs = (Fatal, db) \<and>
         AppendSubmissionData db email platform ss = (Fatal, db)"
  using assms
  by (simp add: GetLastContest_def GetLastSubmission_def FindContestsandSubmissionsFromDB_def
        FindOne_def AppendContestData_def AppendSubmissionData_def UpdateOne_def)

theorem store_unavailable_witness:
  "\<not> available (selectedCollection (exampleDB\<lparr>selectedCollection :=
        (selectedCollection exampleDB)\<lparr>available := False\<rparr>\<rparr>)) \<and>
   GetLastContest ''a@x.com'' ''Leetcode''
     (exampleDB\<lparr>selectedCollection := (selectedCollection exampleDB)\<lparr>available := False\<rparr>\<rparr>) =
     Fatal \<and>
   fst (AppendContestData
     (exampleDB\<lparr>selectedCollection := (selectedCollection exampleDB)\<lparr>available := False\<rparr>\<rparr>)
     ''a@x.com'' ''Leetcode'' [weekly300]) = Fatal"
proof -
  let ?db = "exampleDB\<lparr>selectedCollection := (selectedCollection exampleDB)\<lparr>available := False\<rparr>\<rparr>"
  have h: "\<not> available (selectedCollection ?db)" by simp
  show ?thesis
    using h store_unavailable_ends_process [OF h, of "''a@x.com''" "''Leetcode''" "[weekly300]"]
    by simp
qed
end
